theory Spec2Isabelle
  imports Complex_Main
begin

section \<open>Python values, errors and the object store\<close>

text \<open>
  The values that the utilities of \<^verbatim>\<open>great_expectations/dataset/util.py\<close> tell apart by
  \<^verbatim>\<open>isinstance\<close>. Floats are modelled by exact reals. A dict is string-keyed and keeps its
  insertion order; a set and an array carry their elements in iteration order (for an array
  of one or more dimensions and for an index: the value of \<^verbatim>\<open>tolist()\<close>, a list).
  \<open>NpArray0d t\<close> is a zero-dimensional array: its \<^verbatim>\<open>tolist()\<close> is not a list but a single
  number or boolean, of the Python type named \<open>t\<close>. \<open>NpInt64\<close> and \<open>NpFloat64\<close> are the
  two numpy scalar types that the code tests for; \<open>NpScalar s t\<close> is a numpy scalar of any
  other type (\<^verbatim>\<open>np.int32\<close>, \<^verbatim>\<open>np.float32\<close>, \<^verbatim>\<open>np.bool_\<close>, ...), which is an instance of
  none of the tested types, with \<^verbatim>\<open>str(obj) = s\<close> and \<^verbatim>\<open>type(obj).__name__ = t\<close>. A date
  or datetime carries its \<^verbatim>\<open>str()\<close>. \<open>PyOther s t\<close> is an object of any other type, with
  \<^verbatim>\<open>str(obj) = s\<close> and \<^verbatim>\<open>type(obj).__name__ = t\<close>.
\<close>

datatype pyobj =
    PyStr string
  | PyInt int
  | PyFloat real
  | PyBool bool
  | PyNone
  | PyDict "(string \<times> pyobj) list"
  | PyList "pyobj list"
  | PyTuple "pyobj list"
  | PySet "pyobj list"
  | NpArray "pyobj list"
  | NpArray0d string
  | PdIndex "pyobj list"
  | NpInt64 int
  | NpFloat64 real
  | NpScalar string string
  | PyDatetime string
  | PyDate string
  | PyOther string string

text \<open>Exceptions are values; each carries its message.\<close>

datatype error =
    TypeError string
  | ValueError string
  | IndexError string
  | LinAlgError string
  | ConfigurationError string

text \<open>
  A \<^verbatim>\<open>result_format\<close> argument is a string or a dict. Dicts are objects: the argument holds
  the address of the dict in the store, so that a caller and a callee can share one dict.
  The store is the list of all dict objects allocated so far; a new dict gets the next address.
  A reference \<open>Dict a\<close> that a program holds points to an allocated dict: \<open>a < length s\<close>.
\<close>

type_synonym pydict = "string \<rightharpoonup> pyobj"

type_synonym store = "pydict list"

datatype result_format_arg = Str string | Dict nat

subsection \<open>parse_result_format\<close>

definition parse_result_format :: "result_format_arg \<Rightarrow> store \<Rightarrow> result_format_arg \<times> store" where
  "parse_result_format result_format s =
     (case result_format of
        Str label \<Rightarrow>
          (Dict (length s),
           s @ [Map.empty(''result_format'' \<mapsto> PyStr label,
                       ''partial_unexpected_count'' \<mapsto> PyInt 20)])
      | Dict a \<Rightarrow>
          (if (s ! a) ''partial_unexpected_count'' = None
           then (Dict a, s[a := (s ! a)(''partial_unexpected_count'' \<mapsto> PyInt 20)])
           else (Dict a, s)))"

subsection \<open>recursively_convert_to_json_serializable\<close>







section \<open>Partition objects\<close>

subsection \<open>The numpy operations used, on exact reals\<close>

text \<open>
  Arrays are lists and floats are reals, so every sum and quotient below is exact. The
  operations follow numpy: \<^verbatim>\<open>np.min\<close> and \<^verbatim>\<open>np.max\<close> raise \<^verbatim>\<open>ValueError\<close> on an empty
  array; \<^verbatim>\<open>np.linspace\<close> refuses a negative number of samples and otherwise returns
  \<open>num\<close> evenly spaced points from \<open>start\<close> to \<open>stop\<close>; \<^verbatim>\<open>np.diff\<close> gives the consecutive
  differences; \<^verbatim>\<open>np.histogram\<close> with explicit edges refuses decreasing edges and counts, by
  differencing cumulative counts, the values in each half-open bin, the last bin being closed.
  Dividing an array by zero raises nothing in numpy: it gives \<^verbatim>\<open>nan\<close> or \<^verbatim>\<open>inf\<close>, which is
  \<open>None\<close> here, and a sum over such an entry is \<open>None\<close> again.
\<close>

definition np_min :: "real list \<Rightarrow> error + real" where
  "np_min a =
     (if a = []
      then Inl (ValueError ''zero-size array to reduction operation minimum which has no identity'')
      else Inr (Min (set a)))"

definition np_max :: "real list \<Rightarrow> error + real" where
  "np_max a =
     (if a = []
      then Inl (ValueError ''zero-size array to reduction operation maximum which has no identity'')
      else Inr (Max (set a)))"

definition np_linspace :: "real \<Rightarrow> real \<Rightarrow> int \<Rightarrow> error + real list" where
  "np_linspace start stop num =
     (if num < 0 then Inl (ValueError ''Number of samples must be non-negative.'')
      else if num = 1 then Inr [start]
      else Inr (map (\<lambda>i. start + real i * ((stop - start) / real (nat num - 1))) [0..<nat num]))"

definition np_diff :: "'a::minus list \<Rightarrow> 'a list" where
  "np_diff a = map (\<lambda>(x, y). y - x) (zip a (tl a))"

definition np_histogram :: "real list \<Rightarrow> real list \<Rightarrow> error + (int list \<times> real list)" where
  "np_histogram a bins =
     (if \<not> sorted bins then Inl (ValueError ''bins must increase monotonically.'')
      else if bins = [] then Inl (IndexError ''index -1 is out of bounds for axis 0 with size 0'')
      else Inr (np_diff (map (\<lambda>e. int (length (filter (\<lambda>x. x < e) a))) (butlast bins)
                         @ [int (length (filter (\<lambda>x. x \<le> last bins) a))]),
                bins))"

definition np_true_divide :: "int list \<Rightarrow> nat \<Rightarrow> real option list" where
  "np_true_divide a n = map (\<lambda>h. if n = 0 then None else Some (real_of_int h / real n)) a"

definition np_sum :: "real option list \<Rightarrow> real option" where
  "np_sum a = (if None \<in> set a then None else Some (sum_list (map the a)))"

text \<open>
  \<^verbatim>\<open>np.percentile\<close> with its default linear interpolation: a percentile \<open>p\<close> of the sorted
  sample lies at the fractional index \<open>p / 100 * (N - 1)\<close>, between the two neighbouring
  values. Percentiles outside \<open>[0, 100]\<close> are refused, and an empty sample has no value to
  take.
\<close>

definition take_interpolated :: "real list \<Rightarrow> real \<Rightarrow> real" where
  "take_interpolated ap indices =
     (let indices_below = nat \<lfloor>indices\<rfloor>;
          indices_above = min (indices_below + 1) (length ap - 1);
          weights_above = indices - real indices_below;
          weights_below = 1 - weights_above
      in ap ! indices_below * weights_below + ap ! indices_above * weights_above)"

definition np_percentile :: "real list \<Rightarrow> real list \<Rightarrow> error + real list" where
  "np_percentile a q =
     (if list_ex (\<lambda>p. p < 0 \<or> 100 < p) q
      then Inl (ValueError ''Percentiles must be in the range [0,100]'')
      else if a = [] then Inl (IndexError ''index -1 is out of bounds for axis 0 with size 0'')
      else Inr (map (\<lambda>p. take_interpolated (sort a) (p / 100 * (real (length a) - 1))) q))"

text \<open>
  \<^verbatim>\<open>np.histogram(a, 'auto')\<close>. The outer edges are the minimum and the maximum of the sample
  (0 and 1 for an empty sample), moved apart by one half each when they coincide. The number
  of equal bins is 1 for an empty sample or a zero width, and otherwise the range divided by
  the width that the selector proposes, rounded up. The selector is a parameter here;
  numpy's is \<open>hist_bin_auto\<close>: the smaller of the Freedman-Diaconis width and the Sturges
  width, or the Sturges width when the former is zero. It involves a logarithm and a cube
  root, so it is a real number that cannot be evaluated to a numeral; everything else can.
\<close>

definition np_histogram_auto ::
  "(real list \<Rightarrow> real) \<Rightarrow> real list \<Rightarrow> error + (int list \<times> real list)" where
  "np_histogram_auto hist_bin_selector a =
     (let (first_edge, last_edge) = (if a = [] then (0, 1) else (Min (set a), Max (set a)));
          (first_edge, last_edge) =
             (if first_edge = last_edge then (first_edge - 1 / 2, last_edge + 1 / 2)
              else (first_edge, last_edge));
          n_equal_bins =
             (if a = [] then 1
              else (let width = hist_bin_selector a
                    in if width \<noteq> 0 then \<lceil>(last_edge - first_edge) / width\<rceil> else 1))
      in case np_linspace first_edge last_edge (n_equal_bins + 1) of
           Inl e \<Rightarrow> Inl e
         | Inr bin_edges \<Rightarrow> np_histogram a bin_edges)"

definition hist_bin_sturges :: "real list \<Rightarrow> real" where
  "hist_bin_sturges x = (Max (set x) - Min (set x)) / (log 2 (real (length x)) + 1)"

definition hist_bin_fd :: "real list \<Rightarrow> real" where
  "hist_bin_fd x =
     (let iqr = take_interpolated (sort x) (75 / 100 * (real (length x) - 1))
                - take_interpolated (sort x) (25 / 100 * (real (length x) - 1))
      in 2 * iqr * real (length x) powr (- 1 / 3))"

definition hist_bin_auto :: "real list \<Rightarrow> real" where
  "hist_bin_auto x =
     (let fd_bw = hist_bin_fd x;
          sturges_bw = hist_bin_sturges x
      in if fd_bw \<noteq> 0 then min fd_bw sturges_bw else sturges_bw)"

text \<open>\<^verbatim>\<open>np.allclose(a, b)\<close> with its default tolerances \<^verbatim>\<open>rtol=1e-05\<close> and \<^verbatim>\<open>atol=1e-08\<close>.\<close>

definition np_allclose :: "real \<Rightarrow> real \<Rightarrow> bool" where
  "np_allclose a b = (\<bar>a - b\<bar> \<le> 1 / 10 ^ 8 + 1 / 10 ^ 5 * \<bar>b\<bar>)"

subsection \<open>is_valid_continuous_partition_object\<close>

text \<open>
  A partition object handed to the validator is \<^verbatim>\<open>None\<close> or a dict from keys to sequences
  of numbers. The three tests are joined by \<^verbatim>\<open>and\<close>, so a later one is only evaluated
  when the earlier ones hold.
\<close>

type_synonym partition_object = "(string \<rightharpoonup> real list) option"

definition is_valid_continuous_partition_object :: "partition_object \<Rightarrow> bool" where
  "is_valid_continuous_partition_object partition_object =
     (case partition_object of
        None \<Rightarrow> False
      | Some d \<Rightarrow>
          (case d ''weights'' of
             None \<Rightarrow> False
           | Some ws \<Rightarrow>
               (case d ''bins'' of
                  None \<Rightarrow> False
                | Some bs \<Rightarrow>
                    (if length bs = length ws + 1
                        \<and> list_all (\<lambda>x. x > 0) (np_diff bs)
                        \<and> np_allclose (sum_list ws) 1
                     then True else False))))"

subsection \<open>categorical_partition_data\<close>

text \<open>
  A sample is a list whose null entries are \<open>None\<close>. \<^verbatim>\<open>value_counts(dropna=True)\<close> gives
  the distinct non-null values with their counts, most frequent first (among equal counts, in
  order of first occurrence). The function has no \<^verbatim>\<open>raise\<close>, and none of the pandas and numpy
  operations it uses raises on an empty series.
\<close>

record 'a categorical_partition =
  cat_values :: "'a list"
  cat_weights :: "real option list"

definition pd_value_counts :: "'a option list \<Rightarrow> ('a \<times> nat) list" where
  "pd_value_counts series =
     (let nonnull = map the (filter (\<lambda>x. x \<noteq> None) series)
      in sort_key (\<lambda>vc. - int (snd vc))
           (map (\<lambda>v. (v, count_list nonnull v)) (rev (remdups (rev nonnull)))))"

definition categorical_partition_data :: "'a option list \<Rightarrow> error + 'a categorical_partition" where
  "categorical_partition_data data =
     (let series = data;
          value_counts = pd_value_counts series;
          null_indexes = map (\<lambda>x. x = None) series;
          nonnull_count = length (filter (\<lambda>b. b = False) null_indexes);
          weights = np_true_divide (map (\<lambda>vc. int (snd vc)) value_counts) nonnull_count
      in Inr \<lparr>cat_values = map fst value_counts, cat_weights = weights\<rparr>)"

subsection \<open>kde_partition_data\<close>

text \<open>
  The constructor of the estimator is a parameter of the builder: \<open>gaussian_kde\<close> either
  raises or returns an estimator with its \<^verbatim>\<open>covariance_factor()\<close> and its
  \<^verbatim>\<open>integrate_box_1d\<close>. Bin edges may be infinite. With a zero factor the quotient that
  gives the number of grid points is \<^verbatim>\<open>inf\<close> or \<^verbatim>\<open>nan\<close>, which \<^verbatim>\<open>astype(int)\<close> turns into a
  negative number that \<^verbatim>\<open>np.linspace\<close> refuses. Indexing the empty list of cumulative
  values raises \<^verbatim>\<open>IndexError\<close>.
\<close>

datatype edge = NegInf | Edge real | PosInf

record kde =
  covariance_factor :: real
  integrate_box_1d :: "edge \<Rightarrow> real \<Rightarrow> real"

record kde_partition =
  kde_bins :: "edge list"
  kde_weights :: "real list"

definition kde_partition_data ::
  "(real list \<Rightarrow> error + kde) \<Rightarrow> real list \<Rightarrow> bool \<Rightarrow> error + kde_partition" where
  "kde_partition_data gaussian_kde data estimate_tails =
     (case gaussian_kde data of
        Inl e \<Rightarrow> Inl e
      | Inr kde \<Rightarrow>
          (case np_min data of
             Inl e \<Rightarrow> Inl e
           | Inr lo \<Rightarrow>
               (case np_max data of
                  Inl e \<Rightarrow> Inl e
                | Inr hi \<Rightarrow>
                    (if covariance_factor kde = 0
                     then Inl (ValueError ''Number of samples must be non-negative.'')
                     else
                       (case np_linspace (lo - covariance_factor kde / 2)
                                         (hi + covariance_factor kde / 2)
                                         \<lfloor>(hi - lo) / covariance_factor kde + 1\<rfloor> of
                          Inl e \<Rightarrow> Inl e
                        | Inr evaluation_bins \<Rightarrow>
                            (let cdf_vals = map (integrate_box_1d kde NegInf) evaluation_bins;
                                 evaluation_weights = np_diff cdf_vals;
                                 bins =
                                   (if estimate_tails
                                    then [Edge (lo - 1.5 * covariance_factor kde)]
                                         @ map Edge evaluation_bins
                                         @ [Edge (hi + 1.5 * covariance_factor kde)]
                                    else [NegInf] @ map Edge evaluation_bins @ [PosInf])
                             in if cdf_vals = []
                                then Inl (IndexError ''list index out of range'')
                                else Inr \<lparr>kde_bins = bins,
                                          kde_weights = [hd cdf_vals] @ evaluation_weights
                                                        @ [1 - last cdf_vals]\<rparr>))))))"

text \<open>
  \<^verbatim>\<open>scipy.stats.gaussian_kde\<close> on a one-dimensional sample: it refuses a sample of fewer
  than two values, and a sample whose values are all equal has a singular covariance, which
  cannot be inverted. Otherwise the factor is Scott's, \<open>n\<close> to the power \<open>-1/5\<close> (a real
  number that cannot be evaluated to a numeral). The integral of the estimate over an
  interval, a mixture of normal distribution functions, is the parameter \<open>box_integral\<close>.
\<close>

definition scotts_factor :: "nat \<Rightarrow> real" where
  "scotts_factor n = real n powr (- 1 / 5)"

definition stats_gaussian_kde ::
  "(real list \<Rightarrow> edge \<Rightarrow> real \<Rightarrow> real) \<Rightarrow> real list \<Rightarrow> error + kde" where
  "stats_gaussian_kde box_integral dataset =
     (if \<not> 1 < length dataset
      then Inl (ValueError ''dataset input should have multiple elements.'')
      else if Min (set dataset) = Max (set dataset) then Inl (LinAlgError ''singular matrix'')
      else Inr \<lparr>covariance_factor = scotts_factor (length dataset),
                integrate_box_1d = box_integral dataset\<rparr>)"

subsection \<open>continuous_partition_data\<close>

text \<open>
  The mode is compared as in the source: \<^verbatim>\<open>'uniform'\<close>, then \<^verbatim>\<open>'ntile'\<close>, and anything
  else but \<^verbatim>\<open>'auto'\<close> raises \<^verbatim>\<open>ValueError\<close>. After the first two branches the variable
  \<^verbatim>\<open>bins\<close> holds an array of edges (\<open>Some edges\<close>); after the last it still holds the
  string \<^verbatim>\<open>'auto'\<close> (\<open>None\<close>), and \<^verbatim>\<open>np.histogram\<close> chooses the edges. The width selector
  of numpy's automatic binning is the parameter \<open>hist_bin_selector\<close>.
\<close>

record continuous_partition =
  cont_bins :: "real list"
  cont_weights :: "real option list"

definition continuous_partition_data ::
  "(real list \<Rightarrow> real) \<Rightarrow> real list \<Rightarrow> string \<Rightarrow> int \<Rightarrow> error + continuous_partition" where
  "continuous_partition_data hist_bin_selector data bins n_bins =
     (case (if bins = ''uniform'' then
              (case np_min data of
                 Inl e \<Rightarrow> Inl e
               | Inr start \<Rightarrow>
                   (case np_max data of
                      Inl e \<Rightarrow> Inl e
                    | Inr stop \<Rightarrow>
                        (case np_linspace start stop (n_bins + 1) of
                           Inl e \<Rightarrow> Inl e
                         | Inr edges \<Rightarrow> Inr (Some edges))))
            else if bins = ''ntile'' then
              (case np_linspace 0 100 (n_bins + 1) of
                 Inl e \<Rightarrow> Inl e
               | Inr q \<Rightarrow>
                   (case np_percentile data q of
                      Inl e \<Rightarrow> Inl e
                    | Inr edges \<Rightarrow> Inr (Some edges)))
            else if bins \<noteq> ''auto'' then Inl (ValueError ''Invalid parameter for bins argument'')
            else Inr None) of
        Inl e \<Rightarrow> Inl e
      | Inr bins \<Rightarrow>
          (case (case bins of
                   Some edges \<Rightarrow> np_histogram data edges
                 | None \<Rightarrow> np_histogram_auto hist_bin_selector data) of
             Inl e \<Rightarrow> Inl e
           | Inr (hist, bin_edges) \<Rightarrow>
               Inr \<lparr>cont_bins = bin_edges, cont_weights = np_true_divide hist (length data)\<rparr>))"


section \<open>The column-map expectation wrapper over a SQL table\<close>

subsection \<open>The table, its queries and the engine\<close>

text \<open>
  A row gives each column a value or SQL \<^verbatim>\<open>NULL\<close> (\<open>None\<close>). The queries that
  \<^verbatim>\<open>sqlalchemy_dataset.py\<close> builds are \<^verbatim>\<open>SELECT count(*)\<close>, with or without a \<^verbatim>\<open>WHERE\<close>
  clause, and \<^verbatim>\<open>SELECT column ... WHERE ... LIMIT n\<close>. The two clauses in use are
  \<^verbatim>\<open>sa_column(column) != None\<close>, which SQLAlchemy renders as \<^verbatim>\<open>column IS NOT NULL\<close>, and
  \<^verbatim>\<open>sa_column(column).notin_(values)\<close>, that is \<^verbatim>\<open>column NOT IN (values)\<close>, which no
  \<^verbatim>\<open>NULL\<close> satisfies; for an empty tuple of values SQLAlchemy renders a condition that is
  true of every row, null or not. The columns asked for are columns of the table. The
  dataset object holds the rows of its table, the queries its engine
  has executed so far, its default \<^verbatim>\<open>result_format\<close>, and the store of dict objects.
  Executing a query appends it to the executed ones.
\<close>

type_synonym 'v row = "string \<Rightarrow> 'v option"

datatype 'v where_clause = IsNotNull string | NotIn string "'v list"

datatype 'v sql_query =
    SelectCount "'v where_clause option"
  | SelectColumn string "'v where_clause" nat

record 'v dataset =
  table_rows :: "'v row list"
  executed :: "'v sql_query list"
  default_result_format :: result_format_arg
  objects :: store

fun holds :: "'v where_clause \<Rightarrow> 'v row \<Rightarrow> bool" where
  "holds (IsNotNull c) r = (r c \<noteq> None)"
| "holds (NotIn c vs) r =
     (if vs = [] then True else (case r c of None \<Rightarrow> False | Some v \<Rightarrow> v \<notin> set vs))"

text \<open>\<^verbatim>\<open>self.engine.execute(query).scalar()\<close> for a count query.\<close>

definition execute_scalar :: "'v dataset \<Rightarrow> 'v where_clause option \<Rightarrow> int \<times> 'v dataset" where
  "execute_scalar self w =
     (int (length (case w of
                     None \<Rightarrow> table_rows self
                   | Some c \<Rightarrow> filter (holds c) (table_rows self))),
      self\<lparr>executed := executed self @ [SelectCount w]\<rparr>)"

text \<open>\<^verbatim>\<open>[x[column] for x in self.engine.execute(query.limit(n)).fetchall()]\<close>.\<close>

definition execute_fetchall ::
  "'v dataset \<Rightarrow> string \<Rightarrow> 'v where_clause \<Rightarrow> nat \<Rightarrow> 'v option list \<times> 'v dataset" where
  "execute_fetchall self c w row_limit =
     (map (\<lambda>r. r c) (take row_limit (filter (holds w) (table_rows self))),
      self\<lparr>executed := executed self @ [SelectColumn c w row_limit]\<rparr>)"

subsection \<open>expect_column_values_to_be_in_set\<close>

text \<open>The dict that the wrapped predicate returns.\<close>

record 'v predicate_result =
  pr_unexpected_count :: int
  pr_partial_unexpected_list :: "'v option list"

definition expect_column_values_to_be_in_set ::
  "'v dataset \<Rightarrow> string \<Rightarrow> 'v list \<Rightarrow> (error + 'v predicate_result) \<times> 'v dataset" where
  "expect_column_values_to_be_in_set self column values_set =
     (let unexpected_count_limit = 20;
          (test_results, self) =
             execute_fetchall self column (NotIn column values_set) unexpected_count_limit;
          (unexpected_count, self) = execute_scalar self (Some (NotIn column values_set));
          partial_unexpected_list = test_results
      in (Inr \<lparr>pr_unexpected_count = unexpected_count,
                pr_partial_unexpected_list = partial_unexpected_list\<rparr>, self))"

subsection \<open>inner_wrapper\<close>

text \<open>
  The wrapper that \<^verbatim>\<open>column_map_expectation\<close> puts around a predicate \<open>func\<close>. The two
  methods of the dataset base class that it calls, \<^verbatim>\<open>_calc_map_expectation_success\<close> and
  \<^verbatim>\<open>_format_column_map_output\<close>, are parameters; the formatter is handed the arguments that
  are not the constant \<^verbatim>\<open>None\<close>, and the store. An error of the predicate or of the success
  computation propagates.
\<close>

definition inner_wrapper ::
  "(int \<Rightarrow> int \<Rightarrow> real option \<Rightarrow> error + bool \<times> real option) \<Rightarrow>
   (result_format_arg \<Rightarrow> bool \<Rightarrow> int \<Rightarrow> int \<Rightarrow> int \<Rightarrow> 'v option list \<Rightarrow> store \<Rightarrow>
      (error + 'out) \<times> store) \<Rightarrow>
   ('v dataset \<Rightarrow> string \<Rightarrow> 'args \<Rightarrow> (error + 'v predicate_result) \<times> 'v dataset) \<Rightarrow>
   'v dataset \<Rightarrow> string \<Rightarrow> real option \<Rightarrow> result_format_arg option \<Rightarrow> 'args \<Rightarrow>
   (error + 'out) \<times> 'v dataset" where
  "inner_wrapper calc_map_expectation_success format_column_map_output func
                 self column mostly result_format args =
     (let result_format =
            (case result_format of None \<Rightarrow> default_result_format self | Some given \<Rightarrow> given);
          (null_count, self) = execute_scalar self (Some (IsNotNull column));
          (element_count, self) = execute_scalar self None;
          nonnull_count = element_count - null_count;
          (result, self) = func self column args
      in case result of
           Inl e \<Rightarrow> (Inl e, self)
         | Inr result \<Rightarrow>
             (let success_count = nonnull_count - pr_unexpected_count result
              in case calc_map_expectation_success success_count nonnull_count mostly of
                   Inl e \<Rightarrow> (Inl e, self)
                 | Inr (success, percent_success) \<Rightarrow>
                     (let (return_obj, s) =
                            format_column_map_output result_format success element_count
                              nonnull_count success_count (pr_partial_unexpected_list result)
                              (objects self)
                      in (return_obj, self\<lparr>objects := s\<rparr>))))"

subsection \<open>The two methods of the dataset base class\<close>

text \<open>
  Modelled from the spec: \<^verbatim>\<open>DataSet._calc_map_expectation_success\<close>, which is not among the
  sources. Step 5 of the protocol: without \<^verbatim>\<open>mostly\<close>, success requires that no value is
  unexpected; with \<^verbatim>\<open>mostly = m\<close> in \<open>[0, 1]\<close>, success requires
  \<open>success_count / nonnull_count \<ge> m\<close>; with zero non-null rows the division is guarded and
  the outcome is success. A \<^verbatim>\<open>mostly\<close> outside \<open>[0, 1]\<close> fails with
  \<^verbatim>\<open>ConfigurationError\<close>.
\<close>

definition calc_map_expectation_success ::
  "int \<Rightarrow> int \<Rightarrow> real option \<Rightarrow> error + bool \<times> real option" where
  "calc_map_expectation_success success_count nonnull_count mostly =
     (case mostly of
        None \<Rightarrow>
          Inr (nonnull_count = 0 \<or> nonnull_count - success_count = 0,
               if nonnull_count = 0 then None
               else Some (real_of_int success_count / real_of_int nonnull_count))
      | Some m \<Rightarrow>
          (if m < 0 \<or> 1 < m then Inl (ConfigurationError ''mostly must be in [0, 1]'')
           else if nonnull_count = 0 then Inr (True, None)
           else Inr (m \<le> real_of_int success_count / real_of_int nonnull_count,
                     Some (real_of_int success_count / real_of_int nonnull_count))))"

text \<open>
  Modelled from the spec: \<^verbatim>\<open>DataSet._format_column_map_output\<close>, which is not among the
  sources. The expectation result of the data model; steps 1 and 6 of the protocol: the
  \<^verbatim>\<open>result_format\<close> is resolved with \<^verbatim>\<open>parse_result_format\<close> (a bare label gets the default
  \<^verbatim>\<open>partial_unexpected_count\<close> of 20), the counts are filled in, and the list of unexpected
  values is truncated again to the configured limit. A \<^verbatim>\<open>result_format\<close> whose
  \<^verbatim>\<open>partial_unexpected_count\<close> is not a non-negative integer is malformed and fails with
  \<^verbatim>\<open>ConfigurationError\<close>.
\<close>

record 'v expectation_result =
  result_success :: bool
  result_element_count :: int
  result_missing_count :: int
  result_missing_percent :: "real option"
  result_unexpected_count :: int
  result_unexpected_percent :: "real option"
  result_partial_unexpected_list :: "'v option list"

definition format_column_map_output ::
  "result_format_arg \<Rightarrow> bool \<Rightarrow> int \<Rightarrow> int \<Rightarrow> int \<Rightarrow> 'v option list \<Rightarrow> store \<Rightarrow>
   (error + 'v expectation_result) \<times> store" where
  "format_column_map_output result_format success element_count nonnull_count success_count
                            partial_unexpected_list s =
     (let (resolved, s) = parse_result_format result_format s
      in case resolved of
           Str label \<Rightarrow> (Inl (ConfigurationError ''malformed result_format''), s)
         | Dict a \<Rightarrow>
             (case (s ! a) ''partial_unexpected_count'' of
                Some (PyInt n) \<Rightarrow>
                  (if n < 0 then (Inl (ConfigurationError ''malformed result_format''), s)
                   else
                     (Inr \<lparr>result_success = success,
                           result_element_count = element_count,
                           result_missing_count = element_count - nonnull_count,
                           result_missing_percent =
                             (if element_count = 0 then None
                              else Some (real_of_int (element_count - nonnull_count)
                                         / real_of_int element_count)),
                           result_unexpected_count = nonnull_count - success_count,
                           result_unexpected_percent =
                             (if nonnull_count = 0 then None
                              else Some (real_of_int (nonnull_count - success_count)
                                         / real_of_int nonnull_count)),
                           result_partial_unexpected_list =
                             take (nat n) partial_unexpected_list\<rparr>, s))
              | _ \<Rightarrow> (Inl (ConfigurationError ''malformed result_format''), s)))"

text \<open>
  The configured \<^verbatim>\<open>partial_unexpected_count\<close> of a \<^verbatim>\<open>result_format\<close>: the entry under that
  key once \<^verbatim>\<open>parse_result_format\<close> has resolved it.
\<close>

definition configured_partial_unexpected_count :: "result_format_arg \<Rightarrow> store \<Rightarrow> pyobj option" where
  "configured_partial_unexpected_count result_format s =
     (case parse_result_format result_format s of
        (Dict a, s') \<Rightarrow> (s' ! a) ''partial_unexpected_count''
      | (Str label, s') \<Rightarrow> None)"

subsection \<open>Sample tables\<close>

text \<open>
  A table with the single column \<^verbatim>\<open>x\<close>, and a dataset of ten rows of which two are null.
  \<open>passed_counts\<close> stands in for the formatter and returns the counts it is handed:
  \<^verbatim>\<open>element_count\<close>, \<^verbatim>\<open>nonnull_count\<close> and \<^verbatim>\<open>success_count\<close>.
\<close>

definition column_x :: "int option list \<Rightarrow> int row list" where
  "column_x vs = map (\<lambda>v c. if c = ''x'' then v else None) vs"

definition ten_rows :: "int dataset" where
  "ten_rows =
     \<lparr>table_rows =
        column_x [None, Some 1, Some 2, None, Some 3, Some 4, Some 5, Some 6, Some 7, Some 8],
      executed = [], default_result_format = Str ''BASIC'', objects = []\<rparr>"

definition passed_counts ::
  "result_format_arg \<Rightarrow> bool \<Rightarrow> int \<Rightarrow> int \<Rightarrow> int \<Rightarrow> 'v option list \<Rightarrow> store \<Rightarrow>
   (error + int \<times> int \<times> int) \<times> store" where
  "passed_counts result_format success element_count nonnull_count success_count
                 partial_unexpected_list s =
     (Inr (element_count, nonnull_count, success_count), s)"


section \<open>Properties of parse_result_format\<close>

text \<open>
  C10. For a mapping-typed \<^verbatim>\<open>result_format\<close> (a dict object at address \<open>a\<close> of the store),
  \<^verbatim>\<open>parse_result_format\<close> returns that same object. When the dict already has the key
  \<^verbatim>\<open>partial_unexpected_count\<close> the store is left as it is, so the value is preserved; when the
  key is absent, the dict at \<open>a\<close> itself is updated to hold 20 under that key. Every other key
  of the dict and every other object of the store are unchanged.
\<close>

theorem parse_result_format_mapping:
  assumes "a < length s"
  shows "fst (parse_result_format (Dict a) s) = Dict a
       \<and> length (snd (parse_result_format (Dict a) s)) = length s
       \<and> ((s ! a) ''partial_unexpected_count'' \<noteq> None \<longrightarrow>
            snd (parse_result_format (Dict a) s) = s)
       \<and> ((s ! a) ''partial_unexpected_count'' = None \<longrightarrow>
            (snd (parse_result_format (Dict a) s) ! a) ''partial_unexpected_count'' = Some (PyInt 20))
       \<and> (\<forall>k. k \<noteq> ''partial_unexpected_count'' \<longrightarrow>
            (snd (parse_result_format (Dict a) s) ! a) k = (s ! a) k)
       \<and> (\<forall>b. b < length s \<and> b \<noteq> a \<longrightarrow>
            snd (parse_result_format (Dict a) s) ! b = s ! b)"
  using assms by (simp add: parse_result_format_def)

theorem parse_result_format_mapping_witness:
  "(0::nat) < length [Map.empty(''result_format'' \<mapsto> PyStr ''BASIC'')]
   \<and> fst (parse_result_format (Dict 0) [Map.empty(''result_format'' \<mapsto> PyStr ''BASIC'')]) = Dict 0
   \<and> (snd (parse_result_format (Dict 0) [Map.empty(''result_format'' \<mapsto> PyStr ''BASIC'')]) ! 0)
        ''partial_unexpected_count'' = Some (PyInt 20)
   \<and> (snd (parse_result_format (Dict 0) [Map.empty(''result_format'' \<mapsto> PyStr ''BASIC'')]) ! 0)
        ''result_format'' = Some (PyStr ''BASIC'')"
proof -
  let ?s = "[Map.empty(''result_format'' \<mapsto> PyStr ''BASIC'')] :: store"
  have len: "0 < length ?s" by simp
  have absent: "(?s ! 0) ''partial_unexpected_count'' = None" by simp
  have other: "''result_format'' \<noteq> ''partial_unexpected_count''" by simp
  from parse_result_format_mapping [OF len] absent other
  show ?thesis by simp
qed

section \<open>Properties of recursively_convert_to_json_serializable\<close>





section \<open>Properties of the numpy operations\<close>

lemma np_diff_all_pos:
  "list_all (\<lambda>x. x > 0) (np_diff (bs::real list)) \<longleftrightarrow>
     (\<forall>i. Suc i < length bs \<longrightarrow> bs ! Suc i - bs ! i > 0)"
  by (auto simp: np_diff_def list_all_length nth_tl)

lemma np_diff_length: "length (np_diff a) = length a - 1"
  by (simp add: np_diff_def)

text \<open>Consecutive differences telescope.\<close>

lemma np_diff_telescope:
  fixes a :: "'a::ab_group_add list"
  shows "a \<noteq> [] \<Longrightarrow> sum_list (np_diff a) = last a - hd a"
proof (induction a)
  case Nil
  then show ?case by simp
next
  case (Cons x xs)
  then show ?case by (cases xs) (auto simp: np_diff_def)
qed

text \<open>The counts of a histogram add up to the number of values between its outer edges.\<close>

lemma np_histogram_counts:
  assumes "sorted edges" and "2 \<le> length edges"
  shows "\<exists>hist. np_histogram a edges = Inr (hist, edges)
           \<and> length hist = length edges - 1
           \<and> sum_list hist = int (length (filter (\<lambda>x. x \<le> last edges) a))
                              - int (length (filter (\<lambda>x. x < hd edges) a))"
proof -
  let ?cum = "map (\<lambda>e. int (length (filter (\<lambda>x. x < e) a))) (butlast edges)
              @ [int (length (filter (\<lambda>x. x \<le> last edges) a))]"
  from assms(2) have ne: "edges \<noteq> []" and bne: "butlast edges \<noteq> []"
    by (auto simp: butlast_conv_take)
  have hd_cum: "hd ?cum = int (length (filter (\<lambda>x. x < hd edges) a))"
    using bne ne by (cases edges) (auto simp: hd_map)
  have "sum_list (np_diff ?cum) = last ?cum - hd ?cum"
    by (rule np_diff_telescope) simp
  with hd_cum have "sum_list (np_diff ?cum) =
      int (length (filter (\<lambda>x. x \<le> last edges) a)) - int (length (filter (\<lambda>x. x < hd edges) a))"
    by simp
  moreover have "length (np_diff ?cum) = length edges - 1"
    by (simp add: np_diff_length)
  moreover have "np_histogram a edges = Inr (np_diff ?cum, edges)"
    using assms(1) ne by (simp add: np_histogram_def)
  ultimately show ?thesis by blast
qed

lemma np_sum_true_divide:
  assumes "0 < n"
  shows "np_sum (np_true_divide hist n) = Some (real_of_int (sum_list hist) / real n)"
proof -
  have "None \<notin> set (np_true_divide hist n)"
    using assms by (auto simp: np_true_divide_def)
  moreover have "sum_list (map the (np_true_divide hist n)) = real_of_int (sum_list hist) / real n"
    using assms by (induction hist) (auto simp: np_true_divide_def add_divide_distrib)
  ultimately show ?thesis by (simp add: np_sum_def)
qed


lemma np_linspace_uniform:
  assumes "1 \<le> n"
  shows "np_linspace start stop (n + 1) =
           Inr (map (\<lambda>i. start + real i * ((stop - start) / real_of_int n)) [0..<nat n + 1])"
proof -
  from assms have "nat (n + 1) = nat n + 1" "nat (n + 1) - 1 = nat n" "real (nat n) = real_of_int n"
    by auto
  with assms show ?thesis by (simp add: np_linspace_def)
qed

lemma evenly_spaced_strict:
  assumes "(0::real) < step"
  shows "sorted_wrt (<) (map (\<lambda>i. start + real i * step) [0..<m])"
proof -
  have "sorted_wrt (\<lambda>i j. start + real i * step < start + real j * step) [0..<m]"
    using assms by (intro sorted_wrt_mono_rel [OF _ sorted_wrt_upt]) simp
  then show ?thesis by (simp add: sorted_wrt_map)
qed








lemma Min_le_Max_list: "data \<noteq> [] \<Longrightarrow> Min (set data) \<le> Max (set (data :: real list))"
  by (simp add: Min_le_iff)

section \<open>Properties of is_valid_continuous_partition_object\<close>

text \<open>
  C8. \<^verbatim>\<open>is_valid_continuous_partition_object(p)\<close> is true exactly when \<open>p\<close> is a dict that has
  both keys \<^verbatim>\<open>bins\<close> and \<^verbatim>\<open>weights\<close>, with one more bin edge than weights, every consecutive
  difference of the bin edges strictly positive, and the sum of the weights within the
  tolerance of \<^verbatim>\<open>np.allclose\<close> of 1. In every other case (\<^verbatim>\<open>None\<close>, a missing key, mismatched
  lengths, bins that do not increase, weights that do not sum to 1) it is false; being a total
  boolean function, it never raises.
\<close>

theorem is_valid_continuous_partition_object_iff:
  "is_valid_continuous_partition_object p \<longleftrightarrow>
     (\<exists>d bs ws. p = Some d \<and> d ''bins'' = Some bs \<and> d ''weights'' = Some ws
        \<and> length bs = length ws + 1
        \<and> (\<forall>i. Suc i < length bs \<longrightarrow> bs ! Suc i - bs ! i > 0)
        \<and> \<bar>sum_list ws - 1\<bar> \<le> 1 / 10 ^ 8 + 1 / 10 ^ 5)"
  by (auto simp: is_valid_continuous_partition_object_def np_diff_all_pos np_allclose_def
      split: option.splits)

theorem is_valid_continuous_partition_object_iff_witness:
  "is_valid_continuous_partition_object
     (Some (Map.empty(''bins'' \<mapsto> [0, 1, 3], ''weights'' \<mapsto> [1 / 4, 3 / 4])))
   \<and> \<not> is_valid_continuous_partition_object
     (Some (Map.empty(''bins'' \<mapsto> [0, 1, 1], ''weights'' \<mapsto> [1 / 4, 3 / 4])))
   \<and> \<not> is_valid_continuous_partition_object (Some (Map.empty(''bins'' \<mapsto> [0, 1, 3])))"
proof -
  let ?good = "Some (Map.empty(''bins'' \<mapsto> [0, 1, 3], ''weights'' \<mapsto> [1 / 4, 3 / 4])) :: partition_object"
  let ?flat = "Some (Map.empty(''bins'' \<mapsto> [0, 1, 1], ''weights'' \<mapsto> [1 / 4, 3 / 4])) :: partition_object"
  let ?nokey = "Some (Map.empty(''bins'' \<mapsto> [0, 1, 3])) :: partition_object"
  have all2: "(\<forall>i<Suc (Suc 0). P i) \<longleftrightarrow> P 0 \<and> P (Suc 0)" for P
    by (auto simp: less_Suc_eq)
  have 1: "is_valid_continuous_partition_object ?good"
    unfolding is_valid_continuous_partition_object_iff [of ?good]
    by (simp add: all2)
  have 2: "\<not> is_valid_continuous_partition_object ?flat"
    unfolding is_valid_continuous_partition_object_iff [of ?flat]
    by (simp add: all2)
  have 3: "\<not> is_valid_continuous_partition_object ?nokey"
    unfolding is_valid_continuous_partition_object_iff [of ?nokey]
    by simp
  from 1 2 3 show ?thesis by blast
qed

section \<open>Properties of continuous_partition_data\<close>

text \<open>
  C3, as the code has it. For every sample with at least two distinct values and every
  \<^verbatim>\<open>n_bins = n\<close> with \<open>n \<ge> 1\<close>, the uniform mode returns a partition with \<open>n + 1\<close> bin
  edges; the edges are equally spaced, \<open>(max - min) / n\<close> apart, the first is the minimum and
  the last is the maximum of the sample; they increase strictly; there are \<open>n\<close> weights and
  they sum to 1 (in exact arithmetic).
\<close>

theorem continuous_partition_data_uniform:
  assumes "data \<noteq> []" and "1 \<le> n" and "Min (set data) < Max (set data)"
  shows "\<exists>p. continuous_partition_data hist_bin_selector data ''uniform'' n = Inr p
           \<and> length (cont_bins p) = nat n + 1
           \<and> (\<forall>i \<le> nat n. cont_bins p ! i =
                 Min (set data) + real i * ((Max (set data) - Min (set data)) / real_of_int n))
           \<and> hd (cont_bins p) = Min (set data)
           \<and> last (cont_bins p) = Max (set data)
           \<and> sorted_wrt (<) (cont_bins p)
           \<and> length (cont_weights p) = nat n
           \<and> np_sum (cont_weights p) = Some 1"
proof -
  let ?lo = "Min (set data)" and ?hi = "Max (set data)"
  let ?step = "(?hi - ?lo) / real_of_int n"
  let ?edges = "map (\<lambda>i. ?lo + real i * ?step) [0..<nat n + 1]"
  from assms have step: "0 < ?step" by simp
  have len: "length ?edges = nat n + 1" by simp
  have nth: "\<forall>i \<le> nat n. ?edges ! i = ?lo + real i * ?step"
    by (auto simp: nth_append simp del: upt_Suc)
  have strict: "sorted_wrt (<) ?edges" by (rule evenly_spaced_strict [OF step])
  then have srt: "sorted ?edges" by (rule strict_sorted_imp_sorted)
  have hd_e: "hd ?edges = ?lo" by (simp add: hd_map del: upt_Suc)
  have "last ?edges = ?lo + real (nat n) * ?step" by simp
  also have "\<dots> = ?hi" using assms(2) by simp
  finally have last_e: "last ?edges = ?hi" .
  from assms(2) have "2 \<le> length ?edges" by simp
  from np_histogram_counts [OF srt this, of data] obtain hist where
    h: "np_histogram data ?edges = Inr (hist, ?edges)" and
    hl: "length hist = length ?edges - 1" and
    hs: "sum_list hist = int (length (filter (\<lambda>x. x \<le> last ?edges) data))
                          - int (length (filter (\<lambda>x. x < hd ?edges) data))"
    by blast
  have "filter (\<lambda>x. x \<le> ?hi) data = data" by (simp add: filter_id_conv)
  moreover have "filter (\<lambda>x. x < ?lo) data = []" by (auto simp: filter_empty_conv not_less)
  ultimately have "sum_list hist = int (length data)"
    using hs unfolding last_e hd_e by simp
  moreover from assms(1) have pos: "0 < length data" by simp
  ultimately have sum1: "np_sum (np_true_divide hist (length data)) = Some 1"
    by (simp add: np_sum_true_divide [OF pos])
  let ?p = "\<lparr>cont_bins = ?edges, cont_weights = np_true_divide hist (length data)\<rparr>"
  have run: "continuous_partition_data hist_bin_selector data ''uniform'' n = Inr ?p"
    using assms(1) h np_linspace_uniform [OF assms(2), of ?lo ?hi]
    by (simp add: continuous_partition_data_def np_min_def np_max_def)
  have wl: "length (cont_weights ?p) = nat n"
    using hl by (simp add: np_true_divide_def)
  show ?thesis
    apply (rule exI [of _ ?p])
    using run len nth hd_e last_e strict wl sum1 by simp
qed

theorem continuous_partition_data_uniform_witness:
  "[1, 2, 3, 4, 10] \<noteq> ([] :: real list) \<and> (1::int) \<le> 3
   \<and> Min (set [1, 2, 3, 4, 10 :: real]) < Max (set [1, 2, 3, 4, 10 :: real])
   \<and> (\<exists>p. continuous_partition_data hist_bin_auto [1, 2, 3, 4, 10] ''uniform'' 3 = Inr p
        \<and> length (cont_bins p) = 4
        \<and> hd (cont_bins p) = 1 \<and> last (cont_bins p) = 10
        \<and> sorted_wrt (<) (cont_bins p)
        \<and> np_sum (cont_weights p) = Some 1)"
proof -
  have a: "[1, 2, 3, 4, 10] \<noteq> ([] :: real list)" by simp
  have b: "(1::int) \<le> 3" by simp
  have c: "Min (set [1, 2, 3, 4, 10 :: real]) < Max (set [1, 2, 3, 4, 10 :: real])" by simp
  from continuous_partition_data_uniform [OF a b c, of hist_bin_auto] a b c
  show ?thesis by auto
qed

text \<open>
  On a constant sample the uniform mode returns normally, but all its bin edges coincide:
  they are not strictly increasing.
\<close>

theorem continuous_partition_data_uniform_constant_sample:
  "continuous_partition_data hist_bin_auto [5, 5] ''uniform'' 2 =
     Inr \<lparr>cont_bins = [5, 5, 5], cont_weights = [Some 0, Some 1]\<rparr>
   \<and> \<not> sorted_wrt (<) [5, 5, 5 :: real]"
  by (simp add: continuous_partition_data_def np_min_def np_max_def np_linspace_def
      np_histogram_def np_diff_def np_true_divide_def upt_conv_Cons)















section \<open>Properties of categorical_partition_data\<close>

text \<open>
  C4, as the code has it. On a sample that is empty once its nulls are removed (the empty
  sample, or nulls only), \<^verbatim>\<open>categorical_partition_data\<close> does not fail: it returns the
  partition that has no values and no weights.
\<close>

theorem categorical_partition_data_no_nonnull:
  assumes "filter (\<lambda>x. x \<noteq> None) data = []"
  shows "categorical_partition_data data = Inr \<lparr>cat_values = [], cat_weights = []\<rparr>"
  using assms by (simp add: categorical_partition_data_def pd_value_counts_def np_true_divide_def)

theorem categorical_partition_data_no_nonnull_witness:
  "filter (\<lambda>x. x \<noteq> None) [None :: string option] = []
   \<and> categorical_partition_data [None :: string option] =
       Inr \<lparr>cat_values = [], cat_weights = []\<rparr>"
proof -
  have a: "filter (\<lambda>x. x \<noteq> None) [None :: string option] = []" by simp
  from categorical_partition_data_no_nonnull [OF a] a show ?thesis by blast
qed

text \<open>A sample of two nulls: the function returns, it raises nothing.\<close>

theorem categorical_partition_data_all_null_returns:
  "categorical_partition_data [None, None :: string option] =
     Inr \<lparr>cat_values = [], cat_weights = []\<rparr>"
  by (simp add: categorical_partition_data_def pd_value_counts_def np_true_divide_def)

section \<open>Properties of kde_partition_data\<close>



text \<open>
  On every other sample (empty, a single value, or all values equal) the estimator cannot be
  fitted and the builder raises: it returns no partition.
\<close>

lemma kde_partition_data_degenerate:
  assumes "\<not> (2 \<le> length data \<and> Min (set data) < Max (set data))"
  shows "\<exists>e. kde_partition_data (stats_gaussian_kde box_integral) data estimate_tails = Inl e"
proof (cases "2 \<le> length data")
  case False
  then show ?thesis by (simp add: kde_partition_data_def stats_gaussian_kde_def)
next
  case True
  then have "data \<noteq> []" by auto
  then have "Min (set data) \<le> Max (set data)" by (simp add: Min_le_iff)
  with assms True have "Min (set data) = Max (set data)" by linarith
  with True show ?thesis by (simp add: kde_partition_data_def stats_gaussian_kde_def)
qed



section \<open>Properties of the column-map expectation wrapper\<close>

lemma length_filter_null:
  "int (length rows) - int (length (filter (holds (IsNotNull column)) rows)) =
     int (length (filter (\<lambda>r. r column = None) rows))"
  using sum_length_filter_compl [of "holds (IsNotNull column)" rows] by simp

text \<open>
  What the wrapper computes on any table: \<^verbatim>\<open>element_count\<close> is the number of rows, the query
  named \<^verbatim>\<open>null_count_query\<close> selects the rows that are not null, and so the \<^verbatim>\<open>nonnull_count\<close>
  that goes into the success computation and into the formatter is the number of null rows.
\<close>

lemma inner_wrapper_counts:
  "fst (inner_wrapper calc passed_counts expect_column_values_to_be_in_set
          self column mostly result_format values_set) =
     (let element_count = int (length (table_rows self));
          nonnull_count = int (length (filter (\<lambda>r. r column = None) (table_rows self)));
          success_count =
            nonnull_count - int (length (filter (holds (NotIn column values_set)) (table_rows self)))
      in case calc success_count nonnull_count mostly of
           Inl e \<Rightarrow> Inl e
         | Inr outcome \<Rightarrow> Inr (element_count, nonnull_count, success_count))"
  by (simp add: inner_wrapper_def expect_column_values_to_be_in_set_def execute_scalar_def
      execute_fetchall_def passed_counts_def Let_def length_filter_null
      split: sum.splits prod.splits)

text \<open>
  C1. On the table of ten rows of which two are null, with three non-null values outside the
  set, the wrapper's \<^verbatim>\<open>null_count\<close> is 8, the number of rows that are not null: the success
  computation is called with \<^verbatim>\<open>success_count = -1\<close> and \<^verbatim>\<open>nonnull_count = 2\<close>, and the
  formatter is handed \<^verbatim>\<open>element_count = 10\<close>, \<^verbatim>\<open>nonnull_count = 2\<close> and
  \<^verbatim>\<open>success_count = -1\<close>.
\<close>

theorem inner_wrapper_nonnull_count_ten_rows:
  "fst (inner_wrapper calc passed_counts expect_column_values_to_be_in_set
          ten_rows ''x'' mostly None [1, 2, 3, 4, 5]) =
     (case calc (- 1) 2 mostly of
        Inl e \<Rightarrow> Inl e
      | Inr outcome \<Rightarrow> Inr (10, 2, - 1))"
  by (simp add: inner_wrapper_def expect_column_values_to_be_in_set_def execute_scalar_def
      execute_fetchall_def passed_counts_def ten_rows_def column_x_def Let_def
      split: sum.splits prod.splits)

text \<open>
  C2, as the code has it. Whatever \<^verbatim>\<open>mostly\<close> is, inside or outside \<open>[0, 1]\<close>, and whatever
  the success computation and the formatter do, a call of the wrapped
  \<^verbatim>\<open>expect_column_values_to_be_in_set\<close> executes four queries, in this order: the count of
  non-null rows, the count of all rows, the bounded selection of unexpected values and the count
  of unexpected values. \<^verbatim>\<open>mostly\<close> is looked at only after them, so a call is never refused
  for its \<^verbatim>\<open>mostly\<close> before the backend is queried.
\<close>

theorem inner_wrapper_queries_precede_mostly:
  "executed (snd (inner_wrapper calc fmt expect_column_values_to_be_in_set
                    self column mostly result_format values_set)) =
     executed self @ [SelectCount (Some (IsNotNull column)), SelectCount None,
                      SelectColumn column (NotIn column values_set) 20,
                      SelectCount (Some (NotIn column values_set))]"
  by (simp add: inner_wrapper_def expect_column_values_to_be_in_set_def execute_scalar_def
      execute_fetchall_def Let_def split: sum.splits prod.splits)

text \<open>
  With \<^verbatim>\<open>mostly = 1.5\<close> the call ends in the \<^verbatim>\<open>ConfigurationError\<close> of the success
  computation, and by then the engine has executed all four queries.
\<close>

theorem mostly_out_of_range_after_queries:
  "fst (inner_wrapper calc_map_expectation_success format_column_map_output
          expect_column_values_to_be_in_set ten_rows ''x'' (Some (3 / 2)) None [1, 2, 3, 4, 5]) =
     Inl (ConfigurationError ''mostly must be in [0, 1]'')
   \<and> executed (snd (inner_wrapper calc_map_expectation_success format_column_map_output
          expect_column_values_to_be_in_set ten_rows ''x'' (Some (3 / 2)) None [1, 2, 3, 4, 5])) =
     [SelectCount (Some (IsNotNull ''x'')), SelectCount None,
      SelectColumn ''x'' (NotIn ''x'' [1, 2, 3, 4, 5]) 20,
      SelectCount (Some (NotIn ''x'' [1, 2, 3, 4, 5]))]"
  by (simp add: inner_wrapper_def expect_column_values_to_be_in_set_def execute_scalar_def
      execute_fetchall_def calc_map_expectation_success_def ten_rows_def column_x_def Let_def)

text \<open>The predicate itself never returns more than 20 values, however many rows are unexpected.\<close>

lemma predicate_list_capped:
  "\<exists>r self'. expect_column_values_to_be_in_set self column values_set = (Inr r, self')
      \<and> length (pr_partial_unexpected_list r) \<le> 20"
  by (simp add: expect_column_values_to_be_in_set_def execute_scalar_def
      execute_fetchall_def Let_def)

lemma calc_map_expectation_success_returns:
  assumes "case mostly of None \<Rightarrow> True | Some m \<Rightarrow> 0 \<le> m \<and> m \<le> 1"
  shows "\<exists>success percent_success.
           calc_map_expectation_success success_count nonnull_count mostly =
             Inr (success, percent_success)"
  using assms by (auto simp: calc_map_expectation_success_def split: option.splits)

lemma format_column_map_output_truncates:
  assumes "configured_partial_unexpected_count resolved s = Some (PyInt n)" and "0 \<le> n"
  shows "\<exists>out s'. format_column_map_output resolved success element_count nonnull_count
                     success_count partial_unexpected_list s = (Inr out, s')
           \<and> result_partial_unexpected_list out = take (nat n) partial_unexpected_list"
  using assms
  by (cases "parse_result_format resolved s"; cases "fst (parse_result_format resolved s)")
     (auto simp: format_column_map_output_def configured_partial_unexpected_count_def)

lemma configured_partial_unexpected_count_default:
  "configured_partial_unexpected_count (Str label) s = Some (PyInt 20)"
  by (simp add: configured_partial_unexpected_count_def parse_result_format_def)

text \<open>
  C6. For every table, however many of its rows are unexpected, every column and value set,
  and every \<^verbatim>\<open>result_format\<close> (given, or the default of the dataset) whose configured
  \<^verbatim>\<open>partial_unexpected_count\<close> is \<open>n\<close> (20 for a bare label or a dict without the key): a
  call with \<^verbatim>\<open>mostly\<close> unset or in \<open>[0, 1]\<close> returns a result, and the
  \<^verbatim>\<open>partial_unexpected_list\<close> of the result has at most \<open>n\<close> entries (and never more than
  the 20 that the predicate fetches).
\<close>

theorem partial_unexpected_list_bounded:
  assumes "case mostly of None \<Rightarrow> True | Some m \<Rightarrow> 0 \<le> m \<and> m \<le> 1"
    and "configured_partial_unexpected_count
           (case result_format of None \<Rightarrow> default_result_format self | Some given \<Rightarrow> given)
           (objects self) = Some (PyInt n)"
    and "0 \<le> n"
  shows "\<exists>out. fst (inner_wrapper calc_map_expectation_success format_column_map_output
                      expect_column_values_to_be_in_set self column mostly result_format
                      values_set) = Inr out
           \<and> int (length (result_partial_unexpected_list out)) \<le> n
           \<and> length (result_partial_unexpected_list out) \<le> 20"
proof -
  let ?resolved = "case result_format of None \<Rightarrow> default_result_format self | Some given \<Rightarrow> given"
  obtain r self' where
    p: "expect_column_values_to_be_in_set
          (snd (execute_scalar (snd (execute_scalar self (Some (IsNotNull column)))) None))
          column values_set = (Inr r, self')"
    and os: "objects self' = objects self"
    and cap: "length (pr_partial_unexpected_list r) \<le> 20"
    by (simp add: expect_column_values_to_be_in_set_def execute_scalar_def
        execute_fetchall_def Let_def)
  let ?nonnull = "fst (execute_scalar (snd (execute_scalar self (Some (IsNotNull column)))) None)
                  - fst (execute_scalar self (Some (IsNotNull column)))"
  from calc_map_expectation_success_returns [OF assms(1)] obtain success percent_success where
    c: "calc_map_expectation_success (?nonnull - pr_unexpected_count r) ?nonnull mostly =
          Inr (success, percent_success)"
    by blast
  from format_column_map_output_truncates [OF assms(2) assms(3)] obtain out s' where
    f: "format_column_map_output ?resolved success
          (fst (execute_scalar (snd (execute_scalar self (Some (IsNotNull column)))) None))
          ?nonnull (?nonnull - pr_unexpected_count r) (pr_partial_unexpected_list r)
          (objects self) = (Inr out, s')"
    and t: "result_partial_unexpected_list out = take (nat n) (pr_partial_unexpected_list r)"
    by blast
  have "fst (inner_wrapper calc_map_expectation_success format_column_map_output
               expect_column_values_to_be_in_set self column mostly result_format values_set)
        = Inr out"
    using p c f os by (simp add: inner_wrapper_def Let_def split_def)
  moreover have "int (length (result_partial_unexpected_list out)) \<le> n"
    using t assms(3) by simp
  moreover have "length (result_partial_unexpected_list out) \<le> 20"
    using t cap by simp
  ultimately show ?thesis by blast
qed

theorem partial_unexpected_list_bounded_witness:
  "configured_partial_unexpected_count (Dict 0)
      [Map.empty(''result_format'' \<mapsto> PyStr ''BASIC'', ''partial_unexpected_count'' \<mapsto> PyInt 2)]
    = Some (PyInt 2)
   \<and> (\<exists>out. fst (inner_wrapper calc_map_expectation_success format_column_map_output
                    expect_column_values_to_be_in_set
                    (ten_rows\<lparr>objects :=
                       [Map.empty(''result_format'' \<mapsto> PyStr ''BASIC'',
                                  ''partial_unexpected_count'' \<mapsto> PyInt 2)]\<rparr>)
                    ''x'' (Some (1 / 2)) (Some (Dict 0)) [1, 2, 3, 4, 5]) = Inr out
          \<and> int (length (result_partial_unexpected_list out)) \<le> 2)"
proof -
  let ?s = "[Map.empty(''result_format'' \<mapsto> PyStr ''BASIC'',
                       ''partial_unexpected_count'' \<mapsto> PyInt 2)] :: store"
  let ?self = "ten_rows\<lparr>objects := ?s\<rparr>"
  have a: "case Some (1 / 2 :: real) of None \<Rightarrow> True | Some m \<Rightarrow> 0 \<le> m \<and> m \<le> 1" by simp
  have b0: "configured_partial_unexpected_count (Dict 0) ?s = Some (PyInt 2)"
    by (simp add: configured_partial_unexpected_count_def parse_result_format_def)
  then have b: "configured_partial_unexpected_count
           (case Some (Dict 0) of None \<Rightarrow> default_result_format ?self | Some given \<Rightarrow> given)
           (objects ?self) = Some (PyInt 2)"
    by simp
  have c: "(0::int) \<le> 2" by simp
  from partial_unexpected_list_bounded [OF a b c, of "''x''" "[1, 2, 3, 4, 5]"] b0
  show ?thesis by blast
qed

end
